theory Spec2Isabelle
  imports Complex_Main "HOL-Library.Multiset"
begin

section \<open>Values, exceptions and the query engine\<close>

text \<open>
  The dashboard (\<^verbatim>\<open>src/app.py\<close>, function \<^verbatim>\<open>main\<close>) talks to the SQL engine through one
  cursor. A result set is a list of rows, a row a list of cells. A cell is a Python value;
  the dashboard only formats cells into query text (f-strings), tests them for truth
  (\<^verbatim>\<open>if table:\<close>) and hands them to the rendering layer.
\<close>

datatype cell = Str string | Num int | Null

definition digit_char :: "nat \<Rightarrow> char" where
  "digit_char d = ''0123456789'' ! d"

fun show_nat :: "nat \<Rightarrow> string" where
  "show_nat n = (if n < 10 then [digit_char n] else show_nat (n div 10) @ [digit_char (n mod 10)])"

declare show_nat.simps [simp del]

text \<open>Python's \<^verbatim>\<open>str\<close>, as an f-string field applies it. \<^verbatim>\<open>None\<close> prints as \<^verbatim>\<open>None\<close>.\<close>

fun py_str :: "cell \<Rightarrow> string" where
  "py_str (Str s) = s"
| "py_str (Num i) = (if i < 0 then ''-'' @ show_nat (nat (- i)) else show_nat (nat i))"
| "py_str Null = ''None''"

text \<open>Python's truth value of a cell.\<close>

fun truthy :: "cell \<Rightarrow> bool" where
  "truthy (Str s) = (s \<noteq> [])"
| "truthy (Num i) = (i \<noteq> 0)"
| "truthy Null = False"

text \<open>
  The exceptions that can arise in \<^verbatim>\<open>main\<close>: an error raised by the engine (with its
  message), an index out of range, and the \<^verbatim>\<open>ValueError\<close> of the data-frame constructor
  when the number of column names differs from the width of the data.
\<close>

datatype exn = EngineError string | IndexError | ValueError nat nat

fun str_exn :: "exn \<Rightarrow> string" where
  "str_exn (EngineError m) = m"
| "str_exn IndexError = ''list index out of range''"
| "str_exn (ValueError n w) =
     show_nat n @ '' columns passed, passed data had '' @ show_nat w @ '' columns''"

text \<open>
  The engine behind the cursor: in a state, a query text is answered by an error message
  (the call raises) or by rows, and the state moves on. \<^verbatim>\<open>cursor.execute(q).fetchall()\<close>
  and iterating \<^verbatim>\<open>cursor.execute(q)\<close> are one such round trip.
\<close>

type_synonym 's engine = "'s \<Rightarrow> string \<Rightarrow> (string + cell list list) \<times> 's"

record frame =
  columns :: "string list"
  data :: "cell list list"

datatype place = Sidebar | Page | Tab nat

datatype widget = Success string | Error string | Code cell | Dataframe frame

text \<open>
  The state of one run of the script: the engine's state, the query texts sent so far and
  the widgets put on the screen so far (\<^verbatim>\<open>st.success\<close>, \<^verbatim>\<open>st.error\<close>, \<^verbatim>\<open>st.code\<close>,
  \<^verbatim>\<open>st.dataframe\<close>), each with the place it is shown in.
\<close>

record 's session =
  engine_state :: 's
  issued :: "string list"
  shown :: "(place \<times> widget) list"

definition execute_fetchall ::
  "'s engine \<Rightarrow> string \<Rightarrow> 's session \<Rightarrow> (exn + cell list list) \<times> 's session" where
  "execute_fetchall eng q s =
     (case eng (engine_state s) q of
        (r, st') \<Rightarrow>
          ((case r of Inl m \<Rightarrow> Inl (EngineError m) | Inr rows \<Rightarrow> Inr rows),
           s\<lparr>engine_state := st', issued := issued s @ [q]\<rparr>))"

definition show_widget :: "place \<Rightarrow> widget \<Rightarrow> 's session \<Rightarrow> 's session" where
  "show_widget p w s = s\<lparr>shown := shown s @ [(p, w)]\<rparr>"

subsection \<open>The data-frame constructor\<close>

text \<open>
  \<^verbatim>\<open>pd.DataFrame(rows, columns=cols)\<close> on a list of rows: an empty list gives an empty
  frame with the given columns; otherwise the data is as wide as its longest row (shorter
  rows are filled with \<^verbatim>\<open>None\<close>), and a width other than the number of column names
  raises \<^verbatim>\<open>ValueError\<close>.
\<close>

definition width :: "cell list list \<Rightarrow> nat" where
  "width rows = foldr max (map length rows) 0"

definition pad :: "nat \<Rightarrow> cell list \<Rightarrow> cell list" where
  "pad w r = r @ replicate (w - length r) Null"

definition pd_DataFrame :: "cell list list \<Rightarrow> string list \<Rightarrow> exn + frame" where
  "pd_DataFrame rows cols =
     (if rows = [] then Inr \<lparr>columns = cols, data = []\<rparr>
      else if width rows = length cols
        then Inr \<lparr>columns = cols, data = map (pad (width rows)) rows\<rparr>
        else Inl (ValueError (length cols) (width rows)))"

section \<open>The metadata tabs (\<^verbatim>\<open>main\<close>, lines 155 to 375)\<close>

text \<open>
  Eleven of the twelve tabs read one metadata view each with the same block of code:
  a query text built from schema and table by an f-string, a list of column names, and
  an error label. The three differ per view and are tabulated here from the source.
\<close>

datatype view =
  Properties | History | Manifests | AllManifests | MetadataLog | Snapshots
  | Partitions | Files | Entries | AllEntries | Refs

fun view_name :: "view \<Rightarrow> string" where
  "view_name Properties = ''properties''"
| "view_name History = ''history''"
| "view_name Manifests = ''manifests''"
| "view_name AllManifests = ''all_manifests''"
| "view_name MetadataLog = ''metadata_log_entries''"
| "view_name Snapshots = ''snapshots''"
| "view_name Partitions = ''partitions''"
| "view_name Files = ''files''"
| "view_name Entries = ''entries''"
| "view_name AllEntries = ''all_entries''"
| "view_name Refs = ''refs''"

definition dq :: char where
  "dq = CHR 0x22"

definition newline :: char where
  "newline = CHR 0x0A"

definition entries_select :: string where
  "entries_select =
     ''SELECT status, snapshot_id, sequence_number, file_sequence_number, data_file, readable_metrics FROM ''"

text \<open>The text before the schema. The files query is a triple-quoted string over three lines.\<close>

fun select_prefix :: "view \<Rightarrow> string" where
  "select_prefix Files =
     newline # replicate 24 CHR '' ''
       @ ''SELECT content, file_path, record_count, file_format, file_size_in_bytes''
       @ newline # replicate 24 CHR '' '' @ ''FROM ''"
| "select_prefix Entries = entries_select"
| "select_prefix AllEntries = entries_select"
| "select_prefix v = ''SELECT * FROM ''"

fun query_suffix :: "view \<Rightarrow> string" where
  "query_suffix Files = newline # replicate 20 CHR '' ''"
| "query_suffix v = []"

text \<open>
  The f-string \<^verbatim>\<open>f'... FROM {schema}."{table}$view"'\<close>: schema and table are the texts
  the format fields produce, put into the query as they are.
\<close>

definition view_query :: "view \<Rightarrow> string \<Rightarrow> string \<Rightarrow> string" where
  "view_query v schema table =
     select_prefix v @ schema @ ''.'' @ [dq] @ table @ ''$'' @ view_name v @ [dq]
       @ query_suffix v"

fun view_columns :: "view \<Rightarrow> string list" where
  "view_columns Properties = [''Key'', ''Value'']"
| "view_columns History =
     [''Made Current At'', ''Snapshot ID'', ''Parent ID'', ''Is Current Ancestor'']"
| "view_columns Manifests =
     [''Path'', ''Length'', ''Partition Spec ID'', ''Added Snapshot ID'',
      ''Added Data Files Count'', ''Existing Data Files Count'', ''Deleted Data Files Count'',
      ''Added Position Deletes Count'', ''Existing Position Deletes Count'',
      ''Deleted Position Deletes Count'', ''Partitions'']"
| "view_columns AllManifests =
     [''Path'', ''Length'', ''Partition Spec ID'', ''Added Snapshot ID'',
      ''Added Data Files Count'', ''Existing Data Files Count'', ''Deleted Data Files Count'',
      ''Partition Summaries'']"
| "view_columns MetadataLog =
     [''Timestamp'', ''File'', ''Latest Snapshot ID'', ''Latest Schema ID'',
      ''Latest Sequence Number'']"
| "view_columns Snapshots =
     [''Committed At'', ''Snapshot ID'', ''Parent ID'', ''Operation'', ''Manifest List'',
      ''Summary'']"
| "view_columns Partitions = [''Record Count'', ''File Count'', ''Total Size'', ''Data'']"
| "view_columns Files =
     [''Content'', ''File Path'', ''Record Count'', ''File Format'', ''File Size (Bytes)'']"
| "view_columns Entries =
     [''Status'', ''Snapshot ID'', ''Seq Num'', ''File Seq Num'', ''Data File'',
      ''Readable Metrics'']"
| "view_columns AllEntries =
     [''Status'', ''Snapshot ID'', ''Seq Num'', ''File Seq Num'', ''Data File'',
      ''Readable Metrics'']"
| "view_columns Refs =
     [''Name'', ''Type'', ''Snapshot ID'', ''Max Reference Age (ms)'',
      ''Min Snapshots to Keep'', ''Max Snapshot Age (ms)'']"

text \<open>The word after \<^verbatim>\<open>Error loading\<close> in the tab's \<^verbatim>\<open>except\<close> branch.\<close>

fun view_label :: "view \<Rightarrow> string" where
  "view_label Properties = ''properties''"
| "view_label History = ''history''"
| "view_label Manifests = ''manifests''"
| "view_label AllManifests = ''all manifests''"
| "view_label MetadataLog = ''metadata log''"
| "view_label Snapshots = ''snapshots''"
| "view_label Partitions = ''partitions''"
| "view_label Files = ''files''"
| "view_label Entries = ''entries''"
| "view_label AllEntries = ''all entries''"
| "view_label Refs = ''references''"

text \<open>
  The body of a view tab's \<^verbatim>\<open>try\<close> block up to the frame: the query is sent, and the
  rows go to the data-frame constructor. Either step can raise.
\<close>

definition load_view ::
  "'s engine \<Rightarrow> view \<Rightarrow> cell \<Rightarrow> cell \<Rightarrow> 's session \<Rightarrow> (exn + frame) \<times> 's session" where
  "load_view eng v schema table s =
     (case execute_fetchall eng (view_query v (py_str schema) (py_str table)) s of
        (Inl e, s') \<Rightarrow> (Inl e, s')
      | (Inr rows, s') \<Rightarrow> (pd_DataFrame rows (view_columns v), s'))"

text \<open>
  The whole tab: \<^verbatim>\<open>try: ... st.dataframe(df) except Exception as e: st.error(...)\<close>.
  Nothing leaves the block as an exception.
\<close>

definition view_tab ::
  "'s engine \<Rightarrow> view \<Rightarrow> cell \<Rightarrow> cell \<Rightarrow> nat \<Rightarrow> 's session \<Rightarrow> 's session" where
  "view_tab eng v schema table i s =
     (case load_view eng v schema table s of
        (Inr df, s') \<Rightarrow> show_widget (Tab i) (Dataframe df) s'
      | (Inl e, s') \<Rightarrow>
          show_widget (Tab i) (Error (''Error loading '' @ view_label v @ '': '' @ str_exn e)) s')"

text \<open>
  The first tab shows the table's DDL: the first cell of the first row of
  \<^verbatim>\<open>show create table\<close>. Its \<^verbatim>\<open>except\<close> branch reads \<^verbatim>\<open>Error loading references\<close>,
  as the last tab's does.
\<close>

definition ddl_query :: "string \<Rightarrow> string \<Rightarrow> string" where
  "ddl_query schema table = ''show create table '' @ schema @ ''.'' @ table"

definition load_ddl ::
  "'s engine \<Rightarrow> cell \<Rightarrow> cell \<Rightarrow> 's session \<Rightarrow> (exn + cell) \<times> 's session" where
  "load_ddl eng schema table s =
     (case execute_fetchall eng (ddl_query (py_str schema) (py_str table)) s of
        (Inl e, s') \<Rightarrow> (Inl e, s')
      | (Inr rows, s') \<Rightarrow>
          (case rows of
             [] \<Rightarrow> (Inl IndexError, s')
           | r # _ \<Rightarrow> (case r of [] \<Rightarrow> (Inl IndexError, s') | c # _ \<Rightarrow> (Inr c, s'))))"

definition ddl_tab :: "'s engine \<Rightarrow> cell \<Rightarrow> cell \<Rightarrow> nat \<Rightarrow> 's session \<Rightarrow> 's session" where
  "ddl_tab eng schema table i s =
     (case load_ddl eng schema table s of
        (Inr c, s') \<Rightarrow> show_widget (Tab i) (Code c) s'
      | (Inl e, s') \<Rightarrow>
          show_widget (Tab i) (Error (''Error loading references: '' @ str_exn e)) s')"

datatype tab = ShowDDL | ViewTab view

text \<open>The twelve tabs in the order of \<^verbatim>\<open>st.tabs\<close>; a tab's index is its position.\<close>

definition tab_list :: "tab list" where
  "tab_list =
     [ShowDDL, ViewTab Properties, ViewTab History, ViewTab Manifests, ViewTab AllManifests,
      ViewTab MetadataLog, ViewTab Snapshots, ViewTab Partitions, ViewTab Files,
      ViewTab Entries, ViewTab AllEntries, ViewTab Refs]"

fun render_tab :: "'s engine \<Rightarrow> cell \<Rightarrow> cell \<Rightarrow> nat \<Rightarrow> tab \<Rightarrow> 's session \<Rightarrow> 's session" where
  "render_tab eng schema table i ShowDDL s = ddl_tab eng schema table i s"
| "render_tab eng schema table i (ViewTab v) s = view_tab eng v schema table i s"

text \<open>The \<^verbatim>\<open>with tabs[i]:\<close> blocks run one after the other on the same cursor.\<close>

fun render_tabs ::
  "'s engine \<Rightarrow> cell \<Rightarrow> cell \<Rightarrow> nat \<Rightarrow> tab list \<Rightarrow> 's session \<Rightarrow> 's session" where
  "render_tabs eng schema table i [] s = s"
| "render_tabs eng schema table i (t # ts) s =
     render_tabs eng schema table (Suc i) ts (render_tab eng schema table i t s)"

definition metadata_tabs :: "'s engine \<Rightarrow> cell \<Rightarrow> cell \<Rightarrow> 's session \<Rightarrow> 's session" where
  "metadata_tabs eng schema table s = render_tabs eng schema table 0 tab_list s"

text \<open>
  Two notions that do not mention the dashboard's control flow, to state what it does.
  The query of a tab, and what a tab shows as a function of the engine's answer to that
  query alone.
\<close>

fun tab_query :: "cell \<Rightarrow> cell \<Rightarrow> tab \<Rightarrow> string" where
  "tab_query schema table ShowDDL = ddl_query (py_str schema) (py_str table)"
| "tab_query schema table (ViewTab v) = view_query v (py_str schema) (py_str table)"

fun tab_outcome :: "tab \<Rightarrow> string + cell list list \<Rightarrow> widget" where
  "tab_outcome ShowDDL (Inl m) = Error (''Error loading references: '' @ m)"
| "tab_outcome ShowDDL (Inr []) =
     Error (''Error loading references: '' @ str_exn IndexError)"
| "tab_outcome ShowDDL (Inr ([] # rows)) =
     Error (''Error loading references: '' @ str_exn IndexError)"
| "tab_outcome ShowDDL (Inr ((c # r) # rows)) = Code c"
| "tab_outcome (ViewTab v) (Inl m) = Error (''Error loading '' @ view_label v @ '': '' @ m)"
| "tab_outcome (ViewTab v) (Inr rows) =
     (case pd_DataFrame rows (view_columns v) of
        Inr df \<Rightarrow> Dataframe df
      | Inl e \<Rightarrow> Error (''Error loading '' @ view_label v @ '': '' @ str_exn e))"

text \<open>The engine's answers to a sequence of queries sent one after the other.\<close>

fun responses :: "'s engine \<Rightarrow> 's \<Rightarrow> string list \<Rightarrow> (string + cell list list) list" where
  "responses eng st [] = []"
| "responses eng st (q # qs) = (case eng st q of (r, st') \<Rightarrow> r # responses eng st' qs)"

fun final_state :: "'s engine \<Rightarrow> 's \<Rightarrow> string list \<Rightarrow> 's" where
  "final_state eng st [] = st"
| "final_state eng st (q # qs) = (case eng st q of (r, st') \<Rightarrow> final_state eng st' qs)"

section \<open>The sidebar (\<^verbatim>\<open>main\<close>, lines 30 to 85)\<close>

definition schemas_query :: string where
  "schemas_query =
     ''select distinct table_schema from iceberg.information_schema.tables where table_type = 'BASE TABLE' and table_schema not in ('information_schema', 'system')''"

definition sq :: char where
  "sq = CHR 0x27"

text \<open>The schema is put between single quotes, as it is.\<close>

definition tables_query :: "string \<Rightarrow> string" where
  "tables_query schema =
     ''select distinct table_name from iceberg.information_schema.tables where table_type = 'BASE TABLE' and table_schema not in ('information_schema', 'system') and lower(table_schema) = lower(''
       @ [sq] @ schema @ [sq] @ '')''"

definition analyze_query :: "string \<Rightarrow> string \<Rightarrow> string" where
  "analyze_query schema table = ''ANALYZE '' @ schema @ ''.'' @ table"

text \<open>The comprehension \<^verbatim>\<open>[s[0] for s in rows]\<close>: an empty row raises \<^verbatim>\<open>IndexError\<close>.\<close>

fun first_column :: "cell list list \<Rightarrow> exn + cell list" where
  "first_column [] = Inr []"
| "first_column ([] # rows) = Inl IndexError"
| "first_column ((c # r) # rows) =
     (case first_column rows of Inl e \<Rightarrow> Inl e | Inr cs \<Rightarrow> Inr (c # cs))"

text \<open>
  What the user does in one run of the script: the entries chosen in the two select boxes
  (by position) and the buttons clicked. The script reads nothing else from the user.
\<close>

record ui =
  schema_choice :: nat
  table_choice :: nat
  analyze_clicked :: bool
  optimize_clicked :: bool
  optimize_manifests_clicked :: bool
  expire_snapshots_clicked :: bool
  remove_orphan_files_clicked :: bool
  drop_extended_stats_clicked :: bool

text \<open>
  \<^verbatim>\<open>st.selectbox(label, options)\<close> returns the chosen option, the first one by default,
  and \<^verbatim>\<open>None\<close> when there is no option.
\<close>

definition selectbox :: "cell list \<Rightarrow> nat \<Rightarrow> cell" where
  "selectbox options i =
     (if options = [] then Null else if i < length options then options ! i else options ! 0)"

text \<open>Lines 32 to 46: the two listing queries and the two select boxes, with no handler.\<close>

definition select_table ::
  "'s engine \<Rightarrow> ui \<Rightarrow> 's session \<Rightarrow> (exn + cell \<times> cell) \<times> 's session" where
  "select_table eng u s =
     (case execute_fetchall eng schemas_query s of
        (Inl e, s1) \<Rightarrow> (Inl e, s1)
      | (Inr rows, s1) \<Rightarrow>
          (case first_column rows of
             Inl e \<Rightarrow> (Inl e, s1)
           | Inr schemas \<Rightarrow>
               (case execute_fetchall eng
                       (tables_query (py_str (selectbox schemas (schema_choice u)))) s1 of
                  (Inl e, s2) \<Rightarrow> (Inl e, s2)
                | (Inr rows', s2) \<Rightarrow>
                    (case first_column rows' of
                       Inl e \<Rightarrow> (Inl e, s2)
                     | Inr tables \<Rightarrow>
                         (Inr (selectbox schemas (schema_choice u),
                               selectbox tables (table_choice u)), s2)))))"

text \<open>
  Lines 50 to 53: the Analyze button. The statement goes straight to the cursor; the
  success message follows only when the call returned.
\<close>

definition analyze_action ::
  "'s engine \<Rightarrow> ui \<Rightarrow> cell \<Rightarrow> cell \<Rightarrow> 's session \<Rightarrow> exn option \<times> 's session" where
  "analyze_action eng u schema table s =
     (if analyze_clicked u
      then (case execute_fetchall eng (analyze_query (py_str schema) (py_str table)) s of
              (Inl e, s') \<Rightarrow> (Some e, s')
            | (Inr rows, s') \<Rightarrow>
                (None, show_widget Sidebar (Success ''Table analyzed successfully.'') s'))
      else (None, s))"

text \<open>
  Lines 55 to 85: five buttons, each calling \<^verbatim>\<open>execute_alter_table(cursor, schema, table,
  procedure)\<close> with the procedure text written at the call. The buttons in source order,
  each with its procedure text:
\<close>

definition maintenance_buttons :: "((ui \<Rightarrow> bool) \<times> string) list" where
  "maintenance_buttons =
     [(optimize_clicked, ''optimize(file_size_threshold => '128MB')''),
      (optimize_manifests_clicked, ''optimize_manifests''),
      (expire_snapshots_clicked, ''expire_snapshots(retention_threshold => '7d')''),
      (remove_orphan_files_clicked, ''remove_orphan_files(retention_threshold => '7d')''),
      (drop_extended_stats_clicked, ''drop_extended_stats'')]"

text \<open>The procedure texts one run passes to \<^verbatim>\<open>execute_alter_table\<close>, in order.\<close>

definition maintenance_requests :: "ui \<Rightarrow> string list" where
  "maintenance_requests u = map snd (filter (\<lambda>(clicked, p). clicked u) maintenance_buttons)"

text \<open>
  \<^verbatim>\<open>execute_alter_table\<close> is imported from \<^verbatim>\<open>utils.connection\<close>, which is not among the
  sources: \<^verbatim>\<open>main\<close> is modelled for any such function, which may change the session and
  may raise. The calls are made one after the other; an exception ends the run.
\<close>

type_synonym 's alter = "cell \<Rightarrow> cell \<Rightarrow> string \<Rightarrow> 's session \<Rightarrow> exn option \<times> 's session"

fun run_maintenance ::
  "'s alter \<Rightarrow> cell \<Rightarrow> cell \<Rightarrow> string list \<Rightarrow> 's session \<Rightarrow> exn option \<times> 's session" where
  "run_maintenance alter schema table [] s = (None, s)"
| "run_maintenance alter schema table (p # ps) s =
     (case alter schema table p s of
        (Some e, s') \<Rightarrow> (Some e, s')
      | (None, s') \<Rightarrow> run_maintenance alter schema table ps s')"

section \<open>The script as a whole\<close>

text \<open>
  The section between the sidebar and the tabs (lines 88 to 152) renders what
  \<^verbatim>\<open>fetch_stats\<close>, \<^verbatim>\<open>load_snapshot_history\<close> and \<^verbatim>\<open>load_file_details\<close> return; the three
  are imported from \<^verbatim>\<open>utils.connection\<close>. It is a parameter of \<^verbatim>\<open>main\<close>, like
  \<^verbatim>\<open>init_connection\<close>, which gives the engine's initial state or raises.

  A run ends with the exception that left \<^verbatim>\<open>main\<close>, if any, the queries sent and the
  widgets shown.
\<close>

type_synonym 's overview = "cell \<Rightarrow> cell \<Rightarrow> 's session \<Rightarrow> exn option \<times> 's session"

type_synonym run = "exn option \<times> string list \<times> (place \<times> widget) list"

definition finish :: "exn option \<Rightarrow> 's session \<Rightarrow> run" where
  "finish r s = (r, issued s, shown s)"

definition main ::
  "exn + 's \<Rightarrow> 's engine \<Rightarrow> 's alter \<Rightarrow> 's overview \<Rightarrow> ui \<Rightarrow> run" where
  "main init_connection eng alter overview u =
     (case init_connection of
        Inl e \<Rightarrow> (Some e, [], [])
      | Inr st \<Rightarrow>
          (case select_table eng u \<lparr>engine_state = st, issued = [], shown = []\<rparr> of
             (Inl e, s1) \<Rightarrow> finish (Some e) s1
           | (Inr (schema, table), s1) \<Rightarrow>
               (case analyze_action eng u schema table s1 of
                  (Some e, s2) \<Rightarrow> finish (Some e) s2
                | (None, s2) \<Rightarrow>
                    (case run_maintenance alter schema table (maintenance_requests u) s2 of
                       (Some e, s3) \<Rightarrow> finish (Some e) s3
                     | (None, s3) \<Rightarrow>
                         (if truthy table
                          then (case overview schema table s3 of
                                  (Some e, s4) \<Rightarrow> finish (Some e) s4
                                | (None, s4) \<Rightarrow>
                                    finish None (metadata_tabs eng schema table s4))
                          else finish None s3)))))"

section \<open>The maintenance orchestrator, from the specification\<close>





section \<open>The statistics aggregator, from the specification\<close>

text \<open>
  Modelled from the spec: FileRecord of section 3, the rows \<^verbatim>\<open>fetch_stats\<close> (imported
  from \<^verbatim>\<open>utils.connection\<close>, absent from the sources) aggregates.
\<close>

record file_record =
  path :: string
  size_in_bytes :: nat
  record_count :: nat
  format :: string
  content_type :: string

text \<open>
  Modelled from the spec: TableStats of section 3, the value of \<^verbatim>\<open>fetch_stats\<close> (absent
  from the sources). Section 3 names the last two fields \<^verbatim>\<open>stddev_file_size_mb\<close> and
  \<^verbatim>\<open>variance_file_size_bytes2\<close>, while section 4.2 gives both from the sizes in bytes;
  the names here leave the unit out.
\<close>

record table_stats =
  file_count :: nat
  partition_count :: nat
  row_count :: nat
  snapshot_count :: nat
  history_entry_count :: nat
  small_file_count :: nat
  avg_file_size_mb :: real
  max_file_size_mb :: real
  min_file_size_mb :: real
  avg_records_per_file :: nat
  stddev_file_size :: real
  variance_file_size :: real

text \<open>Modelled from the spec: the divisor 1,048,576 of section 4.2 (\<^verbatim>\<open>fetch_stats\<close> is absent).\<close>

definition bytes_per_mb :: nat where
  "bytes_per_mb = 1048576"

text \<open>
  Modelled from the spec: the small-file threshold of section 4.2, 100 * 1,048,576 bytes
  (\<^verbatim>\<open>fetch_stats\<close> is absent).
\<close>

definition small_file_threshold :: nat where
  "small_file_threshold = 100 * 1048576"

text \<open>
  Modelled from the spec: the standard average of section 4.2 (\<^verbatim>\<open>fetch_stats\<close> is
  absent). The division is guarded: the mean of no value is the default 0.
\<close>

definition mean :: "nat list \<Rightarrow> real" where
  "mean xs = (if xs = [] then 0 else real (sum_list xs) / real (length xs))"

text \<open>
  Modelled from the spec: the variance of section 4.2 (\<^verbatim>\<open>fetch_stats\<close> is absent), the
  mean of the squared deviations from the mean, and 0 for at most one file.
\<close>

definition variance :: "nat list \<Rightarrow> real" where
  "variance xs =
     (if length xs \<le> 1 then 0
      else (\<Sum>x\<leftarrow>xs. (real x - mean xs)\<^sup>2) / real (length xs))"

text \<open>
  Modelled from the spec: the standard deviation of section 4.2 (\<^verbatim>\<open>fetch_stats\<close> is
  absent), the square root of the variance, and 0 for at most one file.
\<close>

definition stddev :: "nat list \<Rightarrow> real" where
  "stddev xs = (if length xs \<le> 1 then 0 else sqrt (variance xs))"

text \<open>
  Modelled from the spec: the StatsAggregator of section 4.2, that is \<^verbatim>\<open>fetch_stats\<close> of
  \<^verbatim>\<open>utils.connection\<close>, absent from the sources. Its input is the sequence of file
  records and the counts of partitions, snapshots and history entries obtained
  separately. Every size-derived field is 0 for no file; the average number of records per
  file is the truncated quotient, as in the end-to-end scenario of section 8 (1000 rows in
  3 files give 333).
\<close>

definition stats_aggregator :: "file_record list \<Rightarrow> nat \<Rightarrow> nat \<Rightarrow> nat \<Rightarrow> table_stats" where
  "stats_aggregator S partitions snapshots history =
     (let sizes = map size_in_bytes S; rows = sum_list (map record_count S) in
      \<lparr>file_count = length S,
       partition_count = partitions,
       row_count = rows,
       snapshot_count = snapshots,
       history_entry_count = history,
       small_file_count = length (filter (\<lambda>f. size_in_bytes f < small_file_threshold) S),
       avg_file_size_mb = (if S = [] then 0 else mean sizes / real bytes_per_mb),
       max_file_size_mb = (if S = [] then 0 else real (Max (set sizes)) / real bytes_per_mb),
       min_file_size_mb = (if S = [] then 0 else real (Min (set sizes)) / real bytes_per_mb),
       avg_records_per_file = (if S = [] then 0 else rows div length S),
       stddev_file_size = stddev sizes,
       variance_file_size = variance sizes\<rparr>)"

subsection \<open>The computation, with the failures of arithmetic made explicit\<close>

text \<open>
  Modelled from the spec: what section 3 calls undefined. In the arithmetic of an
  implementation a division by zero, the largest or smallest of no value and the root of a
  negative number do not give a number: they raise an exception or give NaN. Here each of
  them is an error value, so that a computation that runs into one does not return
  statistics (\<^verbatim>\<open>fetch_stats\<close> is absent from the sources).
\<close>

datatype stats_error = ZeroDivision | EmptySequence | DomainError

text \<open>
  Modelled from the spec: one step after the other; the first error ends the computation
  (\<^verbatim>\<open>fetch_stats\<close> is absent).
\<close>

fun and_then :: "stats_error + 'a \<Rightarrow> ('a \<Rightarrow> stats_error + 'b) \<Rightarrow> stats_error + 'b" where
  "and_then (Inl e) f = Inl e"
| "and_then (Inr v) f = f v"

text \<open>Modelled from the spec: division, undefined for the divisor 0 (\<^verbatim>\<open>fetch_stats\<close> is absent).\<close>

definition checked_div :: "real \<Rightarrow> real \<Rightarrow> stats_error + real" where
  "checked_div x y = (if y = 0 then Inl ZeroDivision else Inr (x / y))"

text \<open>
  Modelled from the spec: the truncating division of the scenario of section 8, undefined
  for the divisor 0 (\<^verbatim>\<open>fetch_stats\<close> is absent).
\<close>

definition checked_floor_div :: "nat \<Rightarrow> nat \<Rightarrow> stats_error + nat" where
  "checked_floor_div x y = (if y = 0 then Inl ZeroDivision else Inr (x div y))"

text \<open>
  Modelled from the spec: the standard maximum of section 4.2, undefined for no value
  (\<^verbatim>\<open>fetch_stats\<close> is absent).
\<close>

fun checked_max :: "nat list \<Rightarrow> stats_error + nat" where
  "checked_max [] = Inl EmptySequence"
| "checked_max (x # xs) = Inr (fold max xs x)"

text \<open>
  Modelled from the spec: the standard minimum of section 4.2, undefined for no value
  (\<^verbatim>\<open>fetch_stats\<close> is absent).
\<close>

fun checked_min :: "nat list \<Rightarrow> stats_error + nat" where
  "checked_min [] = Inl EmptySequence"
| "checked_min (x # xs) = Inr (fold min xs x)"

text \<open>
  Modelled from the spec: the square root of section 4.2, undefined below 0
  (\<^verbatim>\<open>fetch_stats\<close> is absent).
\<close>

definition checked_sqrt :: "real \<Rightarrow> stats_error + real" where
  "checked_sqrt x = (if x < 0 then Inl DomainError else Inr (sqrt x))"

text \<open>
  Modelled from the spec: the standard average of section 4.2 as it is computed, the sum
  divided by the number of values, with no guard of its own (\<^verbatim>\<open>fetch_stats\<close> is absent).
\<close>

definition checked_mean :: "nat list \<Rightarrow> stats_error + real" where
  "checked_mean xs = checked_div (real (sum_list xs)) (real (length xs))"

text \<open>
  Modelled from the spec: the variance of section 4.2 as it is computed, behind the guard
  of section 4.2: 0 for at most one file (\<^verbatim>\<open>fetch_stats\<close> is absent).
\<close>

definition checked_variance :: "nat list \<Rightarrow> stats_error + real" where
  "checked_variance xs =
     (if length xs \<le> 1 then Inr 0
      else and_then (checked_mean xs)
             (\<lambda>m. checked_div (\<Sum>x\<leftarrow>xs. (real x - m)\<^sup>2) (real (length xs))))"

text \<open>
  Modelled from the spec: the standard deviation of section 4.2 as it is computed, behind
  the same guard (\<^verbatim>\<open>fetch_stats\<close> is absent).
\<close>

definition checked_stddev :: "nat list \<Rightarrow> stats_error + real" where
  "checked_stddev xs =
     (if length xs \<le> 1 then Inr 0 else and_then (checked_variance xs) checked_sqrt)"

text \<open>
  Modelled from the spec: \<^verbatim>\<open>fetch_stats\<close> of \<^verbatim>\<open>utils.connection\<close>, absent from the sources,
  as a computation on the file records and counts the engine has returned. It computes
  the fields of \<open>stats_aggregator\<close> with the checked operations, each size-derived
  field behind the guard sections 3 and 4.2 require (the default 0 for no file), and
  returns the statistics or the error it ran into.
\<close>

definition fetch_stats ::
  "file_record list \<Rightarrow> nat \<Rightarrow> nat \<Rightarrow> nat \<Rightarrow> stats_error + table_stats" where
  "fetch_stats S partitions snapshots history =
     (let sizes = map size_in_bytes S; rows = sum_list (map record_count S) in
      and_then (if S = [] then Inr 0
                else and_then (checked_mean sizes) (\<lambda>m. checked_div m (real bytes_per_mb)))
        (\<lambda>avg.
      and_then (if S = [] then Inr 0
                else and_then (checked_max sizes)
                       (\<lambda>m. checked_div (real m) (real bytes_per_mb)))
        (\<lambda>largest.
      and_then (if S = [] then Inr 0
                else and_then (checked_min sizes)
                       (\<lambda>m. checked_div (real m) (real bytes_per_mb)))
        (\<lambda>smallest.
      and_then (if S = [] then Inr 0 else checked_floor_div rows (length S))
        (\<lambda>per_file.
      and_then (checked_stddev sizes)
        (\<lambda>sd.
      and_then (checked_variance sizes)
        (\<lambda>var.
      Inr \<lparr>file_count = length S,
           partition_count = partitions,
           row_count = rows,
           snapshot_count = snapshots,
           history_entry_count = history,
           small_file_count = length (filter (\<lambda>f. size_in_bytes f < small_file_threshold) S),
           avg_file_size_mb = avg,
           max_file_size_mb = largest,
           min_file_size_mb = smallest,
           avg_records_per_file = per_file,
           stddev_file_size = sd,
           variance_file_size = var\<rparr>)))))))"

section \<open>The timeline projector, from the specification\<close>

text \<open>
  Modelled from the spec: the operations of a SnapshotEvent, section 3
  (\<^verbatim>\<open>load_snapshot_history\<close> of \<^verbatim>\<open>utils.connection\<close> is absent from the sources).
\<close>

datatype operation = Append | Overwrite | Replace | Delete

text \<open>
  Modelled from the spec: SnapshotEvent of section 3, with the commit time as a number
  (\<^verbatim>\<open>load_snapshot_history\<close> is absent).
\<close>

record snapshot_event =
  snapshot_id :: int
  parent_id :: "int option"
  operation :: operation
  committed_at :: int
  summary :: "(string \<times> string) list"

text \<open>
  Modelled from the spec: the TimelineProjector of section 4.3, that is
  \<^verbatim>\<open>load_snapshot_history\<close> of \<^verbatim>\<open>utils.connection\<close>, absent from the sources: the events
  sorted ascending by commit time with a stable sort, each paired with its operation as
  the colour key. \<open>sort_key\<close> is the library's insertion sort.
\<close>

definition timeline_projector :: "snapshot_event list \<Rightarrow> (snapshot_event \<times> operation) list" where
  "timeline_projector evs = map (\<lambda>e. (e, operation e)) (sort_key committed_at evs)"

section \<open>The column schemas as the specification lists them\<close>

text \<open>
  Section 6 of the specification gives one column list per metadata view, with
  \<^verbatim>\<open>Added/Existing/Deleted X Count\<close> standing for three columns. The lists are written
  out here from the specification, to be compared with \<open>view_columns\<close>, which is
  taken from the source.
\<close>

fun spec_columns :: "view \<Rightarrow> string list" where
  "spec_columns Properties = [''Key'', ''Value'']"
| "spec_columns History =
     [''Made Current At'', ''Snapshot ID'', ''Parent ID'', ''Is Current Ancestor'']"
| "spec_columns Manifests =
     [''Path'', ''Length'', ''Partition Spec ID'',
      ''Added Data Files Count'', ''Existing Data Files Count'', ''Deleted Data Files Count'',
      ''Added Position Deletes Count'', ''Existing Position Deletes Count'',
      ''Deleted Position Deletes Count'', ''Partitions'']"
| "spec_columns AllManifests =
     [''Path'', ''Length'', ''Partition Spec ID'', ''Added Snapshot ID'',
      ''Added Data Files Count'', ''Existing Data Files Count'', ''Deleted Data Files Count'',
      ''Partition Summaries'']"
| "spec_columns MetadataLog =
     [''Timestamp'', ''File'', ''Latest Snapshot ID'', ''Latest Schema ID'',
      ''Latest Sequence Number'']"
| "spec_columns Snapshots =
     [''Committed At'', ''Snapshot ID'', ''Parent ID'', ''Operation'', ''Manifest List'',
      ''Summary'']"
| "spec_columns Partitions = [''Record Count'', ''File Count'', ''Total Size'', ''Data'']"
| "spec_columns Files =
     [''Content'', ''File Path'', ''Record Count'', ''File Format'', ''File Size (Bytes)'']"
| "spec_columns Entries =
     [''Status'', ''Snapshot ID'', ''Seq Num'', ''File Seq Num'', ''Data File'',
      ''Readable Metrics'']"
| "spec_columns AllEntries =
     [''Status'', ''Snapshot ID'', ''Seq Num'', ''File Seq Num'', ''Data File'',
      ''Readable Metrics'']"
| "spec_columns Refs =
     [''Name'', ''Type'', ''Snapshot ID'', ''Max Reference Age (ms)'',
      ''Min Snapshots to Keep'', ''Max Snapshot Age (ms)'']"

section \<open>Example engines\<close>

text \<open>
  An engine that counts the requests it has answered: the first gets a one-cell result,
  the second and third fail, the fourth gets one row of eleven cells, the others an empty
  result.
\<close>

definition two_fail_engine :: "nat engine" where
  "two_fail_engine n q =
     ((if n = 0 then Inr [[Str ''CREATE TABLE t (x int)'']]
       else if n = 1 \<or> n = 2 then Inl ''view not found''
       else if n = 3 then Inr [replicate 11 (Num 1)]
       else Inr []), Suc n)"

text \<open>
  An engine that answers every query with one row of eleven cells, and one that answers
  with one row of ten cells.
\<close>

definition manifests_engine :: "unit engine" where
  "manifests_engine st q = (Inr [map Num [1, 2, 3, 4, 5, 6, 7, 8, 9, 10, 11]], st)"

definition spec_width_engine :: "unit engine" where
  "spec_width_engine st q = (Inr [map Num [1, 2, 3, 4, 5, 6, 7, 8, 9, 10]], st)"

text \<open>
  An engine that answers the first request with the schema \<^verbatim>\<open>db\<close>, the second with the
  table \<^verbatim>\<open>t\<close>, and fails on every later request; and a run in which the user clicks
  Analyze Table only.
\<close>

definition analyze_fails_engine :: "nat engine" where
  "analyze_fails_engine n q =
     ((if n = 0 then Inr [[Str ''db'']] else if n = 1 then Inr [[Str ''t'']]
       else Inl ''Table not found''), Suc n)"

definition analyze_click :: ui where
  "analyze_click =
     \<lparr>schema_choice = 0, table_choice = 0, analyze_clicked = True, optimize_clicked = False,
      optimize_manifests_clicked = False, expire_snapshots_clicked = False,
      remove_orphan_files_clicked = False, drop_extended_stats_clicked = False\<rparr>"




text \<open>A data file of the given size in MB and the given number of records.\<close>

definition data_file :: "nat \<Rightarrow> nat \<Rightarrow> file_record" where
  "data_file mb n =
     \<lparr>path = ''f'', size_in_bytes = mb * 1048576, record_count = n, format = ''PARQUET'',
      content_type = ''DATA''\<rparr>"

section \<open>The metadata tabs fail one by one\<close>

lemma render_tab_eq:
  "render_tab eng schema table i t s =
     (case eng (engine_state s) (tab_query schema table t) of
        (r, st') \<Rightarrow>
          s\<lparr>engine_state := st', issued := issued s @ [tab_query schema table t],
            shown := shown s @ [(Tab i, tab_outcome t r)]\<rparr>)"
proof (cases t)
  case ShowDDL
  then show ?thesis
    by (auto simp: ddl_tab_def load_ddl_def execute_fetchall_def show_widget_def
        split: prod.splits sum.splits list.splits)
next
  case (ViewTab v)
  then show ?thesis
    by (auto simp: view_tab_def load_view_def execute_fetchall_def show_widget_def
        split: prod.splits sum.splits)
qed

lemma render_tabs_eq:
  "issued (render_tabs eng schema table i ts s) = issued s @ map (tab_query schema table) ts
   \<and> shown (render_tabs eng schema table i ts s) =
       shown s @ map (\<lambda>(k, t, r). (Tab k, tab_outcome t r))
         (zip [i..<i + length ts]
            (zip ts (responses eng (engine_state s) (map (tab_query schema table) ts))))
   \<and> engine_state (render_tabs eng schema table i ts s) =
       final_state eng (engine_state s) (map (tab_query schema table) ts)"
proof (induction ts arbitrary: i s)
  case Nil
  show ?case by simp
next
  case (Cons t ts)
  obtain r st' where e: "eng (engine_state s) (tab_query schema table t) = (r, st')"
    by (cases "eng (engine_state s) (tab_query schema table t)")
  let ?s' = "render_tab eng schema table i t s"
  have s': "?s' = s\<lparr>engine_state := st', issued := issued s @ [tab_query schema table t],
            shown := shown s @ [(Tab i, tab_outcome t r)]\<rparr>"
    by (simp add: render_tab_eq e)
  have up: "[i..<Suc (i + length ts)] = i # [Suc i..<Suc (i + length ts)]"
    by (rule upt_conv_Cons) simp
  note IH = Cons.IH [of "Suc i" ?s', unfolded s']
  show ?case
    using IH by (simp add: s' e up del: upt_Suc)
qed


text \<open>
  Claim C1. Whatever the engine answers, all twelve requests of the tabs are sent, in the
  order of the tabs, and what a tab shows is determined by the engine's answer to that
  tab's own request: the error message of its own failure (after its \<^verbatim>\<open>Error loading\<close>
  label), or its own data. A failure in one tab neither stops a later request from being
  sent nor changes what another tab shows. The label of the DDL tab reads
  \<^verbatim>\<open>references\<close>, as in the source.
\<close>

theorem metadata_tabs_isolated:
  "issued (metadata_tabs eng schema table s) = issued s @ map (tab_query schema table) tab_list
   \<and> shown (metadata_tabs eng schema table s) =
       shown s @ map (\<lambda>(k, t, r). (Tab k, tab_outcome t r))
         (zip [0..<12]
            (zip tab_list
               (responses eng (engine_state s) (map (tab_query schema table) tab_list))))"
proof -
  have "length tab_list = 12" by (simp add: tab_list_def)
  with render_tabs_eq [of eng schema table 0 tab_list s] show ?thesis
    by (simp add: metadata_tabs_def)
qed

lemma upt12: "[0..<12] = [0, 1, 2, 3, 4, 5, 6, 7, 8, 9, 10, 11]"
  by (simp add: upt_rec)

text \<open>
  With the engine \<open>two_fail_engine\<close> the properties and history requests fail, each
  tab showing its own error, and the manifests request after them succeeds.
\<close>

theorem metadata_tabs_isolated_witness:
  "take 4 (shown (metadata_tabs two_fail_engine (Str ''db'') (Str ''t'')
       \<lparr>engine_state = 0, issued = [], shown = []\<rparr>)) =
     [(Tab 0, Code (Str ''CREATE TABLE t (x int)'')),
      (Tab 1, Error ''Error loading properties: view not found''),
      (Tab 2, Error ''Error loading history: view not found''),
      (Tab 3, Dataframe \<lparr>columns = view_columns Manifests, data = [replicate 11 (Num 1)]\<rparr>)]"
  using metadata_tabs_isolated [of two_fail_engine "Str ''db''" "Str ''t''"
      "\<lparr>engine_state = 0, issued = [], shown = []\<rparr>"]
  by (simp add: tab_list_def two_fail_engine_def upt12 pd_DataFrame_def width_def pad_def)

section \<open>The columns of a metadata view\<close>

lemma length_le_width: "r \<in> set rows \<Longrightarrow> length r \<le> width rows"
  by (induction rows) (auto simp: width_def)

lemma pd_DataFrame_Inr:
  assumes "pd_DataFrame rows cols = Inr df"
  shows "columns df = cols" and "\<forall>r\<in>set (data df). length r = length cols"
proof -
  show "columns df = cols"
    using assms by (auto simp: pd_DataFrame_def split: if_splits)
  show "\<forall>r\<in>set (data df). length r = length cols"
  proof (cases "rows = []")
    case True
    with assms show ?thesis by (auto simp: pd_DataFrame_def)
  next
    case False
    with assms have w: "width rows = length cols"
      and d: "data df = map (pad (width rows)) rows"
      by (auto simp: pd_DataFrame_def split: if_splits)
    show ?thesis
    proof
      fix r assume "r \<in> set (data df)"
      then obtain r' where r': "r' \<in> set rows" and r: "r = pad (width rows) r'"
        using d by auto
      from length_le_width [OF r'] show "length r = length cols"
        by (simp add: r pad_def w [symmetric])
    qed
  qed
qed

text \<open>
  Claim C7, as the code has it. When the read of a view succeeds, the frame carries the
  column names the source gives for that view, in that order, and every row has that
  many cells. For every view but manifests these are the columns of section 6 of the
  specification. For manifests the source has eleven columns: those of section 6 with
  \<^verbatim>\<open>Added Snapshot ID\<close> after \<^verbatim>\<open>Partition Spec ID\<close>.
\<close>

theorem view_frame_columns:
  "(fst (load_view eng v schema table s) = Inr df \<longrightarrow>
      columns df = view_columns v \<and> (\<forall>r\<in>set (data df). length r = length (view_columns v)))
   \<and> (v \<noteq> Manifests \<longrightarrow> view_columns v = spec_columns v)
   \<and> view_columns Manifests =
       take 3 (spec_columns Manifests) @ [''Added Snapshot ID''] @ drop 3 (spec_columns Manifests)"
proof (intro conjI impI)
  assume a: "fst (load_view eng v schema table s) = Inr df"
  obtain r s' where e: "execute_fetchall eng (view_query v (py_str schema) (py_str table)) s = (r, s')"
    by (cases "execute_fetchall eng (view_query v (py_str schema) (py_str table)) s")
  from a e obtain rows where "pd_DataFrame rows (view_columns v) = Inr df"
    by (cases r) (auto simp: load_view_def)
  from pd_DataFrame_Inr [OF this]
  show "columns df = view_columns v"
    and "\<forall>r\<in>set (data df). length r = length (view_columns v)" by simp_all
next
  assume "v \<noteq> Manifests"
  then show "view_columns v = spec_columns v" by (cases v) simp_all
next
  show "view_columns Manifests =
       take 3 (spec_columns Manifests) @ [''Added Snapshot ID''] @ drop 3 (spec_columns Manifests)"
    by simp
qed

theorem view_frame_columns_witness:
  "fst (load_view manifests_engine Manifests (Str ''db'') (Str ''t'')
          \<lparr>engine_state = (), issued = [], shown = []\<rparr>) =
     Inr \<lparr>columns = view_columns Manifests,
          data = [map Num [1, 2, 3, 4, 5, 6, 7, 8, 9, 10, 11]]\<rparr>
   \<and> length (view_columns Manifests) = 11
   \<and> view_columns Refs = spec_columns Refs"
  using view_frame_columns [of manifests_engine Manifests "Str ''db''" "Str ''t''"
      "\<lparr>engine_state = (), issued = [], shown = []\<rparr>"
      "\<lparr>columns = view_columns Manifests, data = [map Num [1, 2, 3, 4, 5, 6, 7, 8, 9, 10, 11]]\<rparr>"]
    view_frame_columns [of manifests_engine Refs]
  by (simp add: load_view_def execute_fetchall_def manifests_engine_def pd_DataFrame_def
      width_def pad_def)

text \<open>
  Claim C7 as stated fails at the manifests view: a result of eleven columns is shown under
  the source's eleven names, which are not the ten of section 6, and a result of ten
  columns raises \<^verbatim>\<open>ValueError\<close> in the data-frame constructor.
\<close>

theorem manifests_columns_counterexample:
  "map_sum id columns (fst (load_view manifests_engine Manifests (Str ''db'') (Str ''t'')
          \<lparr>engine_state = (), issued = [], shown = []\<rparr>))
     = Inr (view_columns Manifests)
   \<and> view_columns Manifests \<noteq> spec_columns Manifests
   \<and> fst (load_view spec_width_engine Manifests (Str ''db'') (Str ''t'')
          \<lparr>engine_state = (), issued = [], shown = []\<rparr>) = Inl (ValueError 11 10)"
  by (simp add: load_view_def execute_fetchall_def manifests_engine_def spec_width_engine_def
      pd_DataFrame_def width_def pad_def)

section \<open>Identifiers in the query text\<close>

lemma split_at_quote:
  assumes "dq \<notin> set xs" and "dq \<notin> set ys" and "xs @ dq # us = ys @ dq # vs"
  shows "xs = ys \<and> us = vs"
  using assms
proof (induction xs arbitrary: ys)
  case Nil
  then show ?case by (cases ys) auto
next
  case (Cons x xs)
  then show ?case by (cases ys) auto
qed

text \<open>
  Claim C8, as the code has it. The query of a view is the fixed text of the view with the
  schema and the table put in as they are: nothing is rejected and nothing is escaped. As
  long as the schema contains no double quote, the query text determines the schema and
  the table it was built from.
\<close>

theorem view_query_identifiers:
  "view_query v schema table =
     select_prefix v @ schema @ ''.'' @ [dq] @ table @ ''$'' @ view_name v @ [dq] @ query_suffix v
   \<and> (dq \<notin> set schema \<and> dq \<notin> set schema'
        \<and> view_query v schema table = view_query v schema' table'
      \<longrightarrow> schema = schema' \<and> table = table')"
proof -
  have splice: "view_query v schema table =
     select_prefix v @ schema @ ''.'' @ [dq] @ table @ ''$'' @ view_name v @ [dq] @ query_suffix v"
    by (simp add: view_query_def)
  have "schema = schema' \<and> table = table'"
    if a: "dq \<notin> set schema \<and> dq \<notin> set schema'
        \<and> view_query v schema table = view_query v schema' table'"
  proof -
    let ?R = "''$'' @ view_name v @ [dq] @ query_suffix v"
    from a have eq:
      "(schema @ ''.'') @ dq # (table @ ?R) = (schema' @ ''.'') @ dq # (table' @ ?R)"
      by (simp add: view_query_def)
    from a have n1: "dq \<notin> set (schema @ ''.'')" and n2: "dq \<notin> set (schema' @ ''.'')"
      by (simp_all add: dq_def)
    from split_at_quote [OF n1 n2 eq] show ?thesis by simp
  qed
  with splice show ?thesis by blast
qed

theorem view_query_identifiers_witness:
  "dq \<notin> set ''db''
   \<and> view_query History ''db'' ''t'' = ''SELECT * FROM db.'' @ [dq] @ ''t$history'' @ [dq]
   \<and> view_query History ''db'' ''t'' = view_query History ''db'' ''t''"
  using view_query_identifiers [of History "''db''" "''t''" "''db''" "''t''"]
  by (simp add: dq_def)

text \<open>
  Claim C8 as stated fails on identifiers with a quote character: table \<^verbatim>\<open>c\<close> of schema
  \<^verbatim>\<open>a."b\<close> and table \<^verbatim>\<open>b."c\<close> of schema \<^verbatim>\<open>a\<close> give the same query text, so the content
  of an identifier decides which relation the query reads.
\<close>

theorem view_query_collision_counterexample:
  "view_query Properties (''a.'' @ [dq] @ ''b'') ''c''
     = view_query Properties ''a'' (''b.'' @ [dq] @ ''c'')
   \<and> (''a.'' @ [dq] @ ''b'', ''c'') \<noteq> (''a'', ''b.'' @ [dq] @ ''c'')"
proof
  show "view_query Properties (''a.'' @ [dq] @ ''b'') ''c''
     = view_query Properties ''a'' (''b.'' @ [dq] @ ''c'')"
    by (simp add: view_query_def)
  show "(''a.'' @ [dq] @ ''b'', ''c'') \<noteq> (''a'', ''b.'' @ [dq] @ ''c'')"
    by simp
qed

section \<open>The maintenance thresholds\<close>

text \<open>
  Claim C9, as the code has it. The procedure texts a run passes to
  \<^verbatim>\<open>execute_alter_table\<close> are among five fixed texts. Optimize is requested exactly when its
  button is clicked, and always with \<^verbatim>\<open>file_size_threshold => '128MB'\<close>; Expire Snapshots
  and Remove Orphan Files likewise, always with \<^verbatim>\<open>retention_threshold => '7d'\<close>.
\<close>

theorem maintenance_thresholds_fixed:
  "set (maintenance_requests u) \<subseteq>
     {''optimize(file_size_threshold => '128MB')'', ''optimize_manifests'',
      ''expire_snapshots(retention_threshold => '7d')'',
      ''remove_orphan_files(retention_threshold => '7d')'', ''drop_extended_stats''}
   \<and> (''optimize(file_size_threshold => '128MB')'' \<in> set (maintenance_requests u))
        = optimize_clicked u
   \<and> (''expire_snapshots(retention_threshold => '7d')'' \<in> set (maintenance_requests u))
        = expire_snapshots_clicked u
   \<and> (''remove_orphan_files(retention_threshold => '7d')'' \<in> set (maintenance_requests u))
        = remove_orphan_files_clicked u"
  by (simp add: maintenance_requests_def maintenance_buttons_def)

text \<open>
  Claim C9 as stated fails: no input of the script makes it request another threshold.
\<close>

theorem threshold_not_configurable_counterexample:
  "\<not> (\<exists>u. ''optimize(file_size_threshold => '256MB')'' \<in> set (maintenance_requests u))
   \<and> \<not> (\<exists>u. ''expire_snapshots(retention_threshold => '30d')'' \<in> set (maintenance_requests u))
   \<and> \<not> (\<exists>u. ''remove_orphan_files(retention_threshold => '30d')'' \<in> set (maintenance_requests u))"
  by (simp add: maintenance_requests_def maintenance_buttons_def)

section \<open>The Analyze Table action\<close>

lemma select_table_shown:
  "shown (snd (select_table eng u s)) = shown s"
  by (simp add: select_table_def execute_fetchall_def split: prod.splits sum.splits)

text \<open>
  Claim C10. When the table selection has succeeded, the user has clicked Analyze Table
  and the engine answers the \<^verbatim>\<open>ANALYZE\<close> statement with an error, the exception leaves
  \<^verbatim>\<open>main\<close>: the run ends with it, the \<^verbatim>\<open>ANALYZE\<close> statement is the last query sent, and
  nothing is shown, neither a success nor an error message. This holds for every
  \<^verbatim>\<open>execute_alter_table\<close>, which the action does not call.
\<close>

theorem analyze_error_propagates:
  assumes "select_table eng u \<lparr>engine_state = st, issued = [], shown = []\<rparr>
             = (Inr (schema, table), s1)"
    and "analyze_clicked u"
    and "fst (eng (engine_state s1) (analyze_query (py_str schema) (py_str table))) = Inl msg"
  shows "main (Inr st) eng alter overview u =
           (Some (EngineError msg),
            issued s1 @ [analyze_query (py_str schema) (py_str table)], [])"
proof -
  from select_table_shown [of eng u "\<lparr>engine_state = st, issued = [], shown = []\<rparr>"] assms(1)
  have sh: "shown s1 = []" by simp
  obtain r st' where e: "eng (engine_state s1) (analyze_query (py_str schema) (py_str table)) = (r, st')"
    by (cases "eng (engine_state s1) (analyze_query (py_str schema) (py_str table))")
  with assms(3) have r: "r = Inl msg" by simp
  have "analyze_action eng u schema table s1 =
          (Some (EngineError msg),
           s1\<lparr>engine_state := st',
              issued := issued s1 @ [analyze_query (py_str schema) (py_str table)]\<rparr>)"
    using assms(2) by (simp add: analyze_action_def execute_fetchall_def e r)
  then show ?thesis
    using assms(1) by (simp add: main_def finish_def sh)
qed

theorem analyze_error_propagates_witness:
  "main (Inr 0) analyze_fails_engine (\<lambda>schema table p s. (None, s)) (\<lambda>schema table s. (None, s))
       analyze_click =
     (Some (EngineError ''Table not found''),
      [schemas_query, tables_query ''db'', ''ANALYZE db.t''], [])"
  using analyze_error_propagates [of analyze_fails_engine analyze_click 0 "Str ''db''" "Str ''t''"
      "\<lparr>engine_state = 2, issued = [schemas_query, tables_query ''db''], shown = []\<rparr>"
      "''Table not found''" "\<lambda>schema table p s. (None, s)" "\<lambda>schema table s. (None, s)"]
  by (simp add: select_table_def execute_fetchall_def analyze_fails_engine_def analyze_click_def
      selectbox_def analyze_query_def)

section \<open>Properties of the parts modelled from the specification\<close>




text \<open>
  Claim C3. For no file the computation returns statistics, running into no division by
  zero and no aggregate of no value (the sources of NaN and of an exception), and every
  size-derived field of them is the default 0: the average, largest and smallest size, the
  average number of records per file, the standard deviation and the variance.
\<close>

theorem empty_table_stats:
  "fetch_stats [] partitions snapshots history =
     Inr \<lparr>file_count = 0, partition_count = partitions, row_count = 0,
          snapshot_count = snapshots, history_entry_count = history, small_file_count = 0,
          avg_file_size_mb = 0, max_file_size_mb = 0, min_file_size_mb = 0,
          avg_records_per_file = 0, stddev_file_size = 0, variance_file_size = 0\<rparr>"
  by (simp add: fetch_stats_def checked_stddev_def checked_variance_def)

text \<open>
  For every input the computation returns, and what it returns are the values of
  \<open>stats_aggregator\<close>.
\<close>

lemma checked_mean_eq: "xs \<noteq> [] \<Longrightarrow> checked_mean xs = Inr (mean xs)"
  by (simp add: checked_mean_def checked_div_def mean_def)

lemma checked_max_eq: "checked_max xs = Inr (Max (set xs))" if "xs \<noteq> []"
proof (cases xs)
  case Nil
  with that show ?thesis by simp
next
  case (Cons a list)
  with Max.set_eq_fold [of a list] show ?thesis by simp
qed

lemma checked_min_eq: "checked_min xs = Inr (Min (set xs))" if "xs \<noteq> []"
proof (cases xs)
  case Nil
  with that show ?thesis by simp
next
  case (Cons a list)
  with Min.set_eq_fold [of a list] show ?thesis by simp
qed

lemma checked_variance_eq: "checked_variance xs = Inr (variance xs)"
proof (cases "length xs \<le> 1")
  case True
  then show ?thesis by (simp add: checked_variance_def variance_def)
next
  case False
  then have "xs \<noteq> []" by auto
  with False show ?thesis
    by (simp add: checked_variance_def variance_def checked_mean_eq checked_div_def)
qed

lemma variance_nonneg: "0 \<le> variance xs"
proof -
  have "0 \<le> (\<Sum>x\<leftarrow>xs. (real x - m)\<^sup>2)" for m
    by (rule sum_list_nonneg) auto
  then show ?thesis by (simp add: variance_def)
qed

lemma checked_stddev_eq: "checked_stddev xs = Inr (stddev xs)"
  using variance_nonneg [of xs]
  by (simp add: checked_stddev_def stddev_def checked_variance_eq checked_sqrt_def)

lemma fetch_stats_total:
  "fetch_stats S partitions snapshots history =
     Inr (stats_aggregator S partitions snapshots history)"
proof (cases "S = []")
  case True
  then show ?thesis
    by (simp add: fetch_stats_def stats_aggregator_def checked_stddev_def checked_variance_def
        stddev_def variance_def)
next
  case False
  then show ?thesis
    by (simp add: fetch_stats_def stats_aggregator_def Let_def checked_mean_eq checked_max_eq
        checked_min_eq checked_stddev_eq checked_variance_eq checked_div_def
        checked_floor_div_def bytes_per_mb_def)
qed

text \<open>
  Claim C5. The small-file count is the number of files whose size in bytes is below
  104,857,600; it is 0 when every file has at least that size.
\<close>

theorem small_file_count_threshold:
  "small_file_count (stats_aggregator S partitions snapshots history)
     = length (filter (\<lambda>f. size_in_bytes f < 104857600) S)
   \<and> ((\<forall>f\<in>set S. 104857600 \<le> size_in_bytes f)
        \<longrightarrow> small_file_count (stats_aggregator S partitions snapshots history) = 0)"
proof -
  have c: "small_file_count (stats_aggregator S partitions snapshots history)
     = length (filter (\<lambda>f. size_in_bytes f < 104857600) S)"
    by (simp add: stats_aggregator_def small_file_threshold_def Let_def)
  have "filter (\<lambda>f. size_in_bytes f < 104857600) S = []"
    if "\<forall>f\<in>set S. 104857600 \<le> size_in_bytes f"
    using that by (induction S) auto
  with c show ?thesis by simp
qed

theorem small_file_count_threshold_witness:
  "104857600 \<le> size_in_bytes (data_file 100 10)
   \<and> 104857600 \<le> size_in_bytes (data_file 300 20)
   \<and> small_file_count (stats_aggregator [data_file 100 10, data_file 300 20] 1 1 1) = 0
   \<and> small_file_count
        (stats_aggregator [data_file 50 400, data_file 150 300, data_file 250 300] 1 1 1) = 1"
  using small_file_count_threshold [of "[data_file 100 10, data_file 300 20]" 1 1 1]
    small_file_count_threshold
      [of "[data_file 50 400, data_file 150 300, data_file 250 300]" 1 1 1]
  by (simp add: data_file_def)

text \<open>
  Claim C6. The timeline is sorted ascending by commit time, holds the same events as the
  input, keeps events of equal commit time in their original order, pairs every event with
  its operation, is unchanged by projecting it again, and is empty for no event.
\<close>

theorem timeline_sorted_stable:
  "sorted (map (committed_at \<circ> fst) (timeline_projector evs))
   \<and> mset (map fst (timeline_projector evs)) = mset evs
   \<and> (\<forall>t. filter (\<lambda>e. committed_at e = t) (map fst (timeline_projector evs))
            = filter (\<lambda>e. committed_at e = t) evs)
   \<and> map snd (timeline_projector evs) = map (operation \<circ> fst) (timeline_projector evs)
   \<and> timeline_projector (map fst (timeline_projector evs)) = timeline_projector evs
   \<and> timeline_projector [] = []"
proof -
  have fst_eq: "map fst (timeline_projector evs) = sort_key committed_at evs"
    by (simp add: timeline_projector_def comp_def)
  have s: "sorted (map (committed_at \<circ> fst) (timeline_projector evs))"
    by (simp add: timeline_projector_def comp_def)
  have m: "mset (map fst (timeline_projector evs)) = mset evs"
    by (simp add: fst_eq)
  have st: "\<forall>t. filter (\<lambda>e. committed_at e = t) (map fst (timeline_projector evs))
            = filter (\<lambda>e. committed_at e = t) evs"
    by (simp add: fst_eq sort_key_stable)
  have k: "map snd (timeline_projector evs) = map (operation \<circ> fst) (timeline_projector evs)"
    by (simp add: timeline_projector_def comp_def)
  have "sort_key committed_at (sort_key committed_at evs) = sort_key committed_at evs"
    by (rule sort_key_id_if_sorted) simp
  then have i: "timeline_projector (map fst (timeline_projector evs)) = timeline_projector evs"
    by (simp add: fst_eq) (simp add: timeline_projector_def)
  have e: "timeline_projector [] = []"
    by (simp add: timeline_projector_def)
  from s m st k i e show ?thesis by blast
qed

end
